theory Spec2Isabelle
  imports Complex_Main "HOL-Library.Sublist"
begin

section \<open>JavaScript values as load-sidebar.js reads them\<close>

text \<open>
  A reversal record and the current-user object are plain JSON objects: rows returned by
  the data backend and the parsed \<^verbatim>\<open>userInfo\<close> entry of the local storage. A field holds
  a JSON value; reading a field the object does not have gives \<^verbatim>\<open>undefined\<close>. An
  object is the map from the field names the code reads to their values.
  Numbers are reals (JSON has neither NaN nor an infinity, and \<^verbatim>\<open>-0 === 0\<close>); arrays and
  nested objects are one opaque constructor, since the code only tests them for truthiness
  and compares them with primitive literals, which is never true.
  A string value is the list of its UTF-16 code units; \<open>lit\<close> gives the code units of a
  string literal of the source.
\<close>

type_synonym jsstring = "nat list"

definition lit :: "string \<Rightarrow> jsstring" where
  "lit s = map of_char s"

datatype jsval =
    Undefined
  | Null
  | JBool bool
  | JNum real
  | JStr jsstring
  | JObject

type_synonym jsobject = "string \<rightharpoonup> jsval"

text \<open>\<^verbatim>\<open>obj.name\<close>: the field, or \<^verbatim>\<open>undefined\<close> when it is missing.\<close>

definition get :: "jsobject \<Rightarrow> string \<Rightarrow> jsval" where
  "get obj name = (case obj name of None \<Rightarrow> Undefined | Some v \<Rightarrow> v)"

text \<open>The truthiness test of \<^verbatim>\<open>if (v)\<close>, \<^verbatim>\<open>!v\<close>, \<^verbatim>\<open>v || w\<close> and \<^verbatim>\<open>v && w\<close>.\<close>

fun truthy :: "jsval \<Rightarrow> bool" where
  "truthy Undefined = False"
| "truthy Null = False"
| "truthy (JBool b) = b"
| "truthy (JNum x) = (x \<noteq> 0)"
| "truthy (JStr s) = (s \<noteq> [])"
| "truthy JObject = True"

text \<open>
  What the code can throw: a string method called on a value that is not a string, and a
  backend request whose promise rejects.
\<close>

datatype error = TypeError | RequestRejected

subsection \<open>String methods\<close>

text \<open>
  \<^verbatim>\<open>String.prototype.toLowerCase\<close> follows the Unicode case mapping of the JavaScript
  engine, which is no part of the repository. Every function below that calls it takes it
  as its first parameter, \<open>toLowerCase\<close>, and every theorem holds for whatever function
  that is. On a string of ASCII code units it is the map \<open>asciiLowerCase\<close>; the closed
  examples, whose strings are all ASCII, are evaluated with it.
\<close>

definition asciiLowerCase :: "jsstring \<Rightarrow> jsstring" where
  "asciiLowerCase s = map (\<lambda>c. if 65 \<le> c \<and> c \<le> 90 then c + 32 else c) s"

text \<open>
  The code units that \<^verbatim>\<open>trim\<close> and \<^verbatim>\<open>parseInt\<close> skip: the white space and the line
  terminators of the language (TAB, LF, VT, FF, CR, SP, NBSP, U+1680, U+2000 to U+200A,
  U+2028, U+2029, U+202F, U+205F, U+3000 and U+FEFF).
\<close>

definition is_space :: "nat \<Rightarrow> bool" where
  "is_space c =
     (c \<in> set [0x09, 0x0A, 0x0B, 0x0C, 0x0D, 0x20, 0xA0, 0x1680, 0x2028, 0x2029, 0x202F,
               0x205F, 0x3000, 0xFEFF] \<or>
      (0x2000 \<le> c \<and> c \<le> 0x200A))"

definition trim :: "jsstring \<Rightarrow> jsstring" where
  "trim s = rev (dropWhile is_space (rev (dropWhile is_space s)))"

text \<open>\<^verbatim>\<open>s.includes(sub)\<close>: \<open>sub\<close> occurs in \<open>s\<close> as a contiguous substring.\<close>

fun str_includes :: "jsstring \<Rightarrow> jsstring \<Rightarrow> bool" where
  "str_includes [] sub = (sub = [])"
| "str_includes (c # cs) sub = (prefix sub (c # cs) \<or> str_includes cs sub)"

section \<open>The workflow-state classifier\<close>

text \<open>
  The two team-lead flags of \<^verbatim>\<open>getReversalWorkflowState\<close> and \<^verbatim>\<open>isPendingWorkflowState\<close>:
  strict equality of either spelling of the field with one of four literals.
\<close>

definition teamLeadApproved :: "jsobject \<Rightarrow> bool" where
  "teamLeadApproved reversal =
     (get reversal ''team_lead_approved'' = JBool True \<or>
      get reversal ''team_lead_approved'' = JStr (lit ''true'') \<or>
      get reversal ''team_lead_approved'' = JNum 1 \<or>
      get reversal ''team_lead_approved'' = JStr (lit ''1'') \<or>
      (get reversal ''teamLeadApproved'' = JBool True \<or>
       get reversal ''teamLeadApproved'' = JStr (lit ''true'') \<or>
       get reversal ''teamLeadApproved'' = JNum 1 \<or>
       get reversal ''teamLeadApproved'' = JStr (lit ''1'')))"

definition teamLeadRejected :: "jsobject \<Rightarrow> bool" where
  "teamLeadRejected reversal =
     (get reversal ''team_lead_approved'' = JBool False \<or>
      get reversal ''team_lead_approved'' = JStr (lit ''false'') \<or>
      get reversal ''team_lead_approved'' = JNum 0 \<or>
      get reversal ''team_lead_approved'' = JStr (lit ''0'') \<or>
      (get reversal ''teamLeadApproved'' = JBool False \<or>
       get reversal ''teamLeadApproved'' = JStr (lit ''false'') \<or>
       get reversal ''teamLeadApproved'' = JNum 0 \<or>
       get reversal ''teamLeadApproved'' = JStr (lit ''0'')))"

text \<open>
  \<^verbatim>\<open>(v && v.trim())\<close> read as a condition: a falsy \<open>v\<close> stops the conjunction, a string is
  trimmed and tested for emptiness, any other truthy value has no \<^verbatim>\<open>trim\<close> method.
\<close>

definition and_trim :: "jsval \<Rightarrow> error + bool" where
  "and_trim v =
     (if \<not> truthy v then Inr False
      else case v of JStr s \<Rightarrow> Inr (trim s \<noteq> []) | _ \<Rightarrow> Inl TypeError)"

text \<open>
  \<^verbatim>\<open>hasTeamLeadReviewed\<close>, read as a condition. The disjunction short-circuits from the
  left, so a reviewer name is only trimmed when everything before it was falsy.
\<close>

definition hasTeamLeadReviewed :: "jsobject \<Rightarrow> error + bool" where
  "hasTeamLeadReviewed reversal =
     (if teamLeadApproved reversal \<or> teamLeadRejected reversal then Inr True
      else case and_trim (get reversal ''team_lead_reviewed_by'') of
             Inl e \<Rightarrow> Inl e
           | Inr True \<Rightarrow> Inr True
           | Inr False \<Rightarrow> and_trim (get reversal ''teamLeadReviewedBy''))"

text \<open>
  \<^verbatim>\<open>(reversal.acknowledgement_status || reversal.acknowledgementStatus || '').toLowerCase()\<close>
\<close>

definition ackStatus :: "(jsstring \<Rightarrow> jsstring) \<Rightarrow> jsobject \<Rightarrow> error + jsstring" where
  "ackStatus toLowerCase reversal =
     (let chosen =
            (if truthy (get reversal ''acknowledgement_status'')
             then get reversal ''acknowledgement_status''
             else if truthy (get reversal ''acknowledgementStatus'')
             then get reversal ''acknowledgementStatus''
             else JStr [])
      in case chosen of JStr s \<Rightarrow> Inr (toLowerCase s) | _ \<Rightarrow> Inl TypeError)"

text \<open>The keyword chain and the legacy approval field, lines 1001 to 1014.\<close>

definition legacyWorkflowState :: "jsstring \<Rightarrow> jsval \<Rightarrow> string" where
  "legacyWorkflowState status approved =
     (if str_includes status (lit ''team_lead_review'') then ''team_lead_review''
      else if str_includes status (lit ''team_lead_rejected'') then ''team_lead_rejected''
      else if str_includes status (lit ''qa_review'') \<or>
              str_includes status (lit ''auditor_review'') then ''qa_review''
      else if str_includes status (lit ''cqc_review'') then ''cqc_review''
      else if str_includes status (lit ''cqc_sent_back'') then ''cqc_sent_back''
      else if str_includes status (lit ''agent_re_review'') then ''agent_re_review''
      else if str_includes status (lit ''reversal_approved'') then ''approved''
      else if str_includes status (lit ''reversal_rejected'') then ''rejected''
      else if status = lit ''acknowledged'' \<or> str_includes status (lit ''acknowledged'')
      then ''acknowledged''
      else if approved = Null \<or> approved = Undefined then ''pending''
      else if approved = JBool True \<or> approved = JStr (lit ''true'') \<or> approved = JNum 1 \<or>
              approved = JStr (lit ''1'') then ''approved''
      else if approved = JBool False \<or> approved = JStr (lit ''false'') \<or> approved = JNum 0 \<or>
              approved = JStr (lit ''0'') then ''rejected''
      else ''pending'')"

definition getReversalWorkflowState ::
  "(jsstring \<Rightarrow> jsstring) \<Rightarrow> jsobject \<Rightarrow> error + jsval" where
  "getReversalWorkflowState toLowerCase reversal =
     (if truthy (get reversal ''reversal_workflow_state'') then
        (let dbWorkflowState = get reversal ''reversal_workflow_state'' in
         case hasTeamLeadReviewed reversal of
           Inl e \<Rightarrow> Inl e
         | Inr reviewed \<Rightarrow>
             if (dbWorkflowState = JStr (lit ''qa_review'') \<or>
                 dbWorkflowState = JStr (lit ''cqc_review'')) \<and> \<not> reviewed
             then Inr (JStr (lit ''team_lead_review''))
             else if teamLeadRejected reversal then Inr (JStr (lit ''team_lead_rejected''))
             else Inr dbWorkflowState)
      else
        (case ackStatus toLowerCase reversal of
           Inl e \<Rightarrow> Inl e
         | Inr status \<Rightarrow>
             Inr (JStr (lit (legacyWorkflowState status (get reversal ''reversal_approved''))))))"

definition pendingStates :: "string list" where
  "pendingStates =
     [''pending'', ''submitted'', ''team_lead_review'', ''team_lead_approved'',
      ''qa_review'', ''cqc_review'', ''cqc_sent_back'', ''agent_re_review'']"

text \<open>\<^verbatim>\<open>list.includes(v)\<close> on a list of string literals.\<close>

definition list_includes :: "string list \<Rightarrow> jsval \<Rightarrow> bool" where
  "list_includes xs v = (case v of JStr s \<Rightarrow> s \<in> set (map lit xs) | _ \<Rightarrow> False)"

definition isPendingWorkflowState ::
  "(jsstring \<Rightarrow> jsstring) \<Rightarrow> jsobject \<Rightarrow> error + bool" where
  "isPendingWorkflowState toLowerCase reversal =
     (case getReversalWorkflowState toLowerCase reversal of
        Inl e \<Rightarrow> Inl e
      | Inr workflowState \<Rightarrow>
          if list_includes pendingStates workflowState then Inr True
          else
            (let finalDecision = get reversal ''reversal_approved'';
                 hasFinalDecision = (finalDecision \<noteq> Null \<and> finalDecision \<noteq> Undefined)
             in if teamLeadApproved reversal \<and> \<not> hasFinalDecision then Inr True
                else case ackStatus toLowerCase reversal of
                       Inl e \<Rightarrow> Inl e
                     | Inr status \<Rightarrow>
                         if str_includes status (lit ''pending - reversal_approved'') \<or>
                            str_includes status (lit ''pending - reversal_rejected'')
                         then Inr True
                         else if workflowState = JStr (lit ''qa_review'') \<or>
                                 workflowState = JStr (lit ''cqc_review'')
                         then Inr True
                         else Inr False))"

text \<open>
  The same predicate with the last test (lines 1048 to 1050) deleted, for comparison
  with the one above.
\<close>

definition isPendingWorkflowState_without_final_clause ::
  "(jsstring \<Rightarrow> jsstring) \<Rightarrow> jsobject \<Rightarrow> error + bool" where
  "isPendingWorkflowState_without_final_clause toLowerCase reversal =
     (case getReversalWorkflowState toLowerCase reversal of
        Inl e \<Rightarrow> Inl e
      | Inr workflowState \<Rightarrow>
          if list_includes pendingStates workflowState then Inr True
          else
            (let finalDecision = get reversal ''reversal_approved'';
                 hasFinalDecision = (finalDecision \<noteq> Null \<and> finalDecision \<noteq> Undefined)
             in if teamLeadApproved reversal \<and> \<not> hasFinalDecision then Inr True
                else case ackStatus toLowerCase reversal of
                       Inl e \<Rightarrow> Inl e
                     | Inr status \<Rightarrow>
                         if str_includes status (lit ''pending - reversal_approved'') \<or>
                            str_includes status (lit ''pending - reversal_rejected'')
                         then Inr True
                         else Inr False))"

text \<open>The ten labels of the classifier.\<close>

definition workflow_labels :: "string list" where
  "workflow_labels =
     [''team_lead_review'', ''team_lead_rejected'', ''qa_review'', ''cqc_review'',
      ''cqc_sent_back'', ''agent_re_review'', ''approved'', ''rejected'', ''acknowledged'',
      ''pending'']"

definition is_label :: "jsval \<Rightarrow> bool" where
  "is_label v = (case v of JStr s \<Rightarrow> s \<in> set (map lit workflow_labels) | _ \<Rightarrow> False)"

text \<open>A text column: a string, or no value.\<close>

fun text_or_null :: "jsval \<Rightarrow> bool" where
  "text_or_null (JStr s) = True"
| "text_or_null Null = True"
| "text_or_null Undefined = True"
| "text_or_null _ = False"

text \<open>A reviewer-name field that is absent or blank.\<close>

definition no_reviewer_name :: "jsval \<Rightarrow> bool" where
  "no_reviewer_name v = (case v of JStr s \<Rightarrow> trim s = [] | _ \<Rightarrow> \<not> truthy v)"

text \<open>The substrings the classifier looks for in the legacy status.\<close>

definition status_keywords :: "string list" where
  "status_keywords =
     [''team_lead_review'', ''team_lead_rejected'', ''qa_review'', ''auditor_review'',
      ''cqc_review'', ''cqc_sent_back'', ''agent_re_review'', ''reversal_approved'',
      ''reversal_rejected'', ''acknowledged'']"

section \<open>The notification counter cache\<close>

text \<open>
  Counts and timestamps are integers (a list length, a sum of row counts,
  \<^verbatim>\<open>Date.now()\<close>), far below the range where a JavaScript number stops being exact or
  prints with an exponent. \<^verbatim>\<open>parseInt\<close> can also give NaN.
\<close>

datatype jsnum = NaN | Num int

text \<open>The decimal digits are the code units 48 to 57.\<close>

definition is_digit :: "nat \<Rightarrow> bool" where
  "is_digit c = (48 \<le> c \<and> c \<le> 57)"

fun nat_toString :: "nat \<Rightarrow> jsstring" where
  "nat_toString n =
     (if n < 10 then [48 + n] else nat_toString (n div 10) @ [48 + n mod 10])"

declare nat_toString.simps [simp del]

text \<open>\<^verbatim>\<open>n.toString()\<close> of an integer; 45 is the minus sign.\<close>

definition int_toString :: "int \<Rightarrow> jsstring" where
  "int_toString i = (if i < 0 then 45 # nat_toString (nat (- i)) else nat_toString (nat i))"

definition digits_value :: "jsstring \<Rightarrow> nat" where
  "digits_value ds = foldl (\<lambda>acc c. 10 * acc + (c - 48)) 0 ds"

text \<open>
  \<^verbatim>\<open>parseInt(s, 10)\<close>: leading white space is skipped, one sign (45 or 43) is read, then
  the longest run of decimal digits; with no digit the result is NaN.
\<close>

definition parseInt :: "jsstring \<Rightarrow> jsnum" where
  "parseInt s =
     (let t = dropWhile is_space s;
          negative = (case t of [] \<Rightarrow> False | c # cs \<Rightarrow> c = 45);
          u = (case t of [] \<Rightarrow> [] | c # cs \<Rightarrow> if c = 45 \<or> c = 43 then cs else t);
          ds = takeWhile is_digit u
      in if ds = [] then NaN
         else if negative then Num (- int (digits_value ds))
         else Num (int (digits_value ds)))"

text \<open>
  The local storage: keys to strings; \<^verbatim>\<open>getItem\<close> of a missing key is null. Its
  operations are taken to succeed. The current user is what \<^verbatim>\<open>getUserInfo\<close> returns: the
  parsed object, or null (\<open>None\<close>) when there is none or it does not parse. It is a
  parameter of every function that calls \<^verbatim>\<open>getUserInfo\<close>; the \<^verbatim>\<open>userInfo\<close> entry of the
  storage, which that call reads, is no key of the cache.
\<close>

type_synonym storage = "jsstring \<rightharpoonup> jsstring"

definition CACHE_DURATION_MS :: int where
  "CACHE_DURATION_MS = 5 * 60 * 1000"

text \<open>
  \<^verbatim>\<open>userInfo ? (userInfo.email || 'anonymous').toLowerCase().trim() : 'anonymous'\<close>
\<close>

definition cacheUserEmail :: "(jsstring \<Rightarrow> jsstring) \<Rightarrow> jsobject option \<Rightarrow> error + jsstring" where
  "cacheUserEmail toLowerCase userInfo =
     (case userInfo of
        None \<Rightarrow> Inr (lit ''anonymous'')
      | Some u \<Rightarrow>
          (case (if truthy (get u ''email'') then get u ''email'' else JStr (lit ''anonymous'')) of
             JStr s \<Rightarrow> Inr (trim (toLowerCase s))
           | _ \<Rightarrow> Inl TypeError))"

definition getNotificationCacheKey ::
  "(jsstring \<Rightarrow> jsstring) \<Rightarrow> jsobject option \<Rightarrow> jsstring \<Rightarrow> error + jsstring" where
  "getNotificationCacheKey toLowerCase userInfo type =
     (case cacheUserEmail toLowerCase userInfo of
        Inl e \<Rightarrow> Inl e
      | Inr userEmail \<Rightarrow> Inr (lit ''notification_count_'' @ type @ lit ''_'' @ userEmail))"

definition getNotificationCacheTimestampKey ::
  "(jsstring \<Rightarrow> jsstring) \<Rightarrow> jsobject option \<Rightarrow> jsstring \<Rightarrow> error + jsstring" where
  "getNotificationCacheTimestampKey toLowerCase userInfo type =
     (case cacheUserEmail toLowerCase userInfo of
        Inl e \<Rightarrow> Inl e
      | Inr userEmail \<Rightarrow>
          Inr (lit ''notification_count_'' @ type @ lit ''_timestamp_'' @ userEmail))"

text \<open>\<^verbatim>\<open>now - timestamp > this.CACHE_DURATION_MS\<close>; a comparison with NaN is false.\<close>

definition cacheExpired :: "int \<Rightarrow> jsnum \<Rightarrow> bool" where
  "cacheExpired now timestamp =
     (case timestamp of NaN \<Rightarrow> False | Num t \<Rightarrow> now - t > CACHE_DURATION_MS)"

text \<open>
  \<^verbatim>\<open>getCachedNotificationCount(type)\<close> at time \<open>now\<close>: the value returned (\<open>None\<close> is
  null) and the storage it leaves. An exception inside the \<^verbatim>\<open>try\<close> gives null.
\<close>

definition getCachedNotificationCount ::
  "(jsstring \<Rightarrow> jsstring) \<Rightarrow> jsobject option \<Rightarrow> int \<Rightarrow> jsstring \<Rightarrow> storage \<Rightarrow>
   jsnum option \<times> storage" where
  "getCachedNotificationCount toLowerCase userInfo now type store =
     (case getNotificationCacheKey toLowerCase userInfo type of
        Inl e \<Rightarrow> (None, store)
      | Inr cacheKey \<Rightarrow>
          (case getNotificationCacheTimestampKey toLowerCase userInfo type of
             Inl e \<Rightarrow> (None, store)
           | Inr timestampKey \<Rightarrow>
               (case (store cacheKey, store timestampKey) of
                  (Some cachedData, Some cachedTimestamp) \<Rightarrow>
                    if cachedData = [] \<or> cachedTimestamp = [] then (None, store)
                    else if cacheExpired now (parseInt cachedTimestamp)
                    then (None, (store(cacheKey := None))(timestampKey := None))
                    else (Some (parseInt cachedData), store)
                | _ \<Rightarrow> (None, store))))"

text \<open>\<^verbatim>\<open>setCachedNotificationCount(type, count)\<close> at time \<open>now\<close>.\<close>

definition setCachedNotificationCount ::
  "(jsstring \<Rightarrow> jsstring) \<Rightarrow> jsobject option \<Rightarrow> int \<Rightarrow> jsstring \<Rightarrow> int \<Rightarrow> storage \<Rightarrow>
   storage" where
  "setCachedNotificationCount toLowerCase userInfo now type count store =
     (case getNotificationCacheKey toLowerCase userInfo type of
        Inl e \<Rightarrow> store
      | Inr cacheKey \<Rightarrow>
          (case getNotificationCacheTimestampKey toLowerCase userInfo type of
             Inl e \<Rightarrow> store
           | Inr timestampKey \<Rightarrow>
               (store(cacheKey \<mapsto> int_toString count))(timestampKey \<mapsto> int_toString now)))"

section \<open>The badges\<close>

text \<open>
  A badge element: its text and its inline \<^verbatim>\<open>style.display\<close>. \<open>None\<close> is a document
  without the element (\<^verbatim>\<open>getElementById\<close> gives null).
\<close>

record badge =
  textContent :: jsstring
  display :: string

definition showCount :: "jsnum \<Rightarrow> badge \<Rightarrow> badge" where
  "showCount count b =
     (case count of
        NaN \<Rightarrow> b\<lparr>display := ''none''\<rparr>
      | Num n \<Rightarrow>
          if n > 0
          then b\<lparr>textContent := (if n > 99 then lit ''99+'' else int_toString n),
                 display := ''inline-flex''\<rparr>
          else b\<lparr>display := ''none''\<rparr>)"

definition setReversalBadgeCount :: "jsnum \<Rightarrow> badge option \<Rightarrow> badge option" where
  "setReversalBadgeCount count badge =
     (case badge of None \<Rightarrow> None | Some b \<Rightarrow> Some (showCount count b))"

definition setEmployeeReversalBadgeCount ::
  "jsobject option \<Rightarrow> jsnum \<Rightarrow> badge option \<Rightarrow> badge option" where
  "setEmployeeReversalBadgeCount userInfo count badge =
     (case badge of
        None \<Rightarrow> None
      | Some b \<Rightarrow>
          (case userInfo of
             None \<Rightarrow> Some (showCount count b)
           | Some u \<Rightarrow>
               if get u ''role'' \<noteq> JStr (lit ''Employee'') then Some (b\<lparr>display := ''none''\<rparr>)
               else Some (showCount count b)))"

definition setAcknowledgmentBadgeCount :: "jsnum \<Rightarrow> badge option \<Rightarrow> badge option" where
  "setAcknowledgmentBadgeCount count badge =
     (case badge of None \<Rightarrow> None | Some b \<Rightarrow> Some (showCount count b))"

text \<open>What a badge shows: nothing when it is hidden or missing, else its text.\<close>

definition rendered :: "badge option \<Rightarrow> jsstring option" where
  "rendered badge =
     (case badge of
        None \<Rightarrow> None
      | Some b \<Rightarrow> if display b = ''none'' then None else Some (textContent b))"

section \<open>Recomputing the counts\<close>



text \<open>\<^verbatim>\<open>userInfo && userInfo.role === 'Employee'\<close>\<close>

definition isEmployee :: "jsobject option \<Rightarrow> bool" where
  "isEmployee userInfo =
     (case userInfo of None \<Rightarrow> False | Some u \<Rightarrow> get u ''role'' = JStr (lit ''Employee''))"

subsection \<open>Pending reversals\<close>





subsection \<open>Reversal outcomes for the employee\<close>






subsection \<open>Pending acknowledgments\<close>









section \<open>Role-gated navigation\<close>

text \<open>
  The menu of the sidebar as the two gating functions see it. A main-menu entry is an
  \<^verbatim>\<open>li role="none"\<close> that holds a menu item, found by its \<^verbatim>\<open>aria-label\<close>, and, when it has
  a submenu, the \<^verbatim>\<open>li role="none"\<close> elements of that submenu, each holding a link found by
  its \<^verbatim>\<open>href\<close>. Every \<^verbatim>\<open>li\<close> has an id (empty when it has none) and an inline
  \<^verbatim>\<open>style.display\<close> (empty when it has none). The lists are in document order.
\<close>

record submenu_li =
  href :: string
  sub_id :: string
  sub_display :: string

record menu_li =
  label :: string
  li_id :: string
  li_display :: string
  submenu :: "submenu_li list"

text \<open>
  \<^verbatim>\<open>document.querySelector('[aria-label="..."]')\<close>, then \<^verbatim>\<open>closest('li[role="none"]')\<close>, then
  \<^verbatim>\<open>style.display = 'none'\<close>: the first main-menu entry with that label is hidden;
  without a match nothing happens.
\<close>

fun hide_menu_item :: "string \<Rightarrow> menu_li list \<Rightarrow> menu_li list" where
  "hide_menu_item l [] = []"
| "hide_menu_item l (m # rest) =
     (if label m = l then m\<lparr>li_display := ''none''\<rparr> # rest else m # hide_menu_item l rest)"

text \<open>
  The first submenu \<^verbatim>\<open>li\<close> of a list that satisfies \<open>P\<close> gets the display \<open>d\<close>; \<open>None\<close>
  when there is none.
\<close>

fun set_first_sub :: "(submenu_li \<Rightarrow> bool) \<Rightarrow> string \<Rightarrow> submenu_li list \<Rightarrow> submenu_li list option" where
  "set_first_sub P d [] = None"
| "set_first_sub P d (s # rest) =
     (if P s then Some (s\<lparr>sub_display := d\<rparr> # rest)
      else case set_first_sub P d rest of None \<Rightarrow> None | Some rest' \<Rightarrow> Some (s # rest'))"

text \<open>
  \<^verbatim>\<open>document.querySelector('.submenu-item[href="..."]')\<close>, then
  \<^verbatim>\<open>closest('li[role="none"]')\<close>, then \<^verbatim>\<open>style.display = 'none'\<close>: the first submenu entry
  of the document with that link is hidden.
\<close>

fun hide_submenu_item :: "string \<Rightarrow> menu_li list \<Rightarrow> menu_li list" where
  "hide_submenu_item h [] = []"
| "hide_submenu_item h (m # rest) =
     (case set_first_sub (\<lambda>s. href s = h) ''none'' (submenu m) of
        Some subs \<Rightarrow> m\<lparr>submenu := subs\<rparr> # rest
      | None \<Rightarrow> m # hide_submenu_item h rest)"

text \<open>
  \<^verbatim>\<open>document.getElementById(i)\<close>, then \<^verbatim>\<open>style.display = d\<close>: the first \<^verbatim>\<open>li\<close> in
  document order with that id, a main-menu entry coming before the entries of its submenu.
\<close>

fun set_display_by_id :: "string \<Rightarrow> string \<Rightarrow> menu_li list \<Rightarrow> menu_li list" where
  "set_display_by_id i d [] = []"
| "set_display_by_id i d (m # rest) =
     (if li_id m = i then m\<lparr>li_display := d\<rparr> # rest
      else case set_first_sub (\<lambda>s. sub_id s = i) d (submenu m) of
             Some subs \<Rightarrow> m\<lparr>submenu := subs\<rparr> # rest
           | None \<Rightarrow> m # set_display_by_id i d rest)"

text \<open>\<^verbatim>\<open>userInfo && userInfo.role === 'Super Admin'\<close>\<close>

definition isSuperAdmin :: "jsobject option \<Rightarrow> bool" where
  "isSuperAdmin userInfo =
     (case userInfo of None \<Rightarrow> False | Some u \<Rightarrow> get u ''role'' = JStr (lit ''Super Admin''))"

definition updateAccessControlMenuItem :: "jsobject option \<Rightarrow> menu_li list \<Rightarrow> menu_li list" where
  "updateAccessControlMenuItem userInfo doc =
     set_display_by_id ''accessControlMenuItem''
       (if isSuperAdmin userInfo then ''block'' else ''none'')
       doc"

text \<open>
  \<^verbatim>\<open>hideEmployeeMenuItems\<close>: both early \<^verbatim>\<open>return\<close>s leave the function, so the call of
  \<^verbatim>\<open>updateAccessControlMenuItem\<close> on its last line is reached for an employee only.
\<close>

definition hideEmployeeMenuItems :: "jsobject option \<Rightarrow> menu_li list \<Rightarrow> menu_li list" where
  "hideEmployeeMenuItems userInfo doc =
     (case userInfo of
        None \<Rightarrow> doc
      | Some u \<Rightarrow>
          (let userRole = (if truthy (get u ''role'') then get u ''role'' else JStr [])
           in if userRole \<noteq> JStr (lit ''Employee'') then doc
              else
                (let d1 = (if \<exists>m \<in> set doc. label m = ''Auditor's Dashboard''
                           then hide_menu_item ''Auditor's Dashboard'' doc
                           else hide_menu_item ''Auditors' Dashboard'' doc);
                     d2 = hide_menu_item ''Create New Audit'' d1;
                     d3 = hide_menu_item ''Audit Distribution'' d2;
                     d4 = hide_menu_item ''Improvement Corner'' d3;
                     d5 = hide_menu_item ''Search'' d4;
                     d6 = hide_submenu_item ''scorecards.html'' d5;
                     d7 = hide_submenu_item ''user-management.html'' d6
                 in updateAccessControlMenuItem userInfo d7)))"

text \<open>
  The two calls of \<^verbatim>\<open>loadSidebar\<close>, lines 121 and 124, once the sidebar is in the
  document.
\<close>

definition applyRoleGating :: "jsobject option \<Rightarrow> menu_li list \<Rightarrow> menu_li list" where
  "applyRoleGating userInfo doc =
     updateAccessControlMenuItem userInfo (hideEmployeeMenuItems userInfo doc)"

definition sub_li :: "string \<Rightarrow> submenu_li" where
  "sub_li h = \<lparr>href = h, sub_id = '''', sub_display = ''''\<rparr>"

definition main_li :: "string \<Rightarrow> submenu_li list \<Rightarrow> menu_li" where
  "main_li l subs = \<lparr>label = l, li_id = '''', li_display = '''', submenu = subs\<rparr>"

text \<open>The menu of \<^verbatim>\<open>getEmbeddedSidebarHTML\<close>, lines 174 to 363.\<close>

definition embeddedSidebar :: "menu_li list" where
  "embeddedSidebar =
     [main_li ''Search'' [],
      main_li ''Home'' [],
      main_li ''Auditor's Dashboard'' [],
      main_li ''Audit Distribution'' [],
      main_li ''Create New Audit'' [],
      main_li ''Audit Reports'' [],
      main_li ''Performance'' [],
      main_li ''Coaching & Remediation'' [],
      main_li ''Reversal Management'' [],
      main_li ''Event Management'' [],
      main_li ''Improvement Corner''
        [sub_li ''calibration.html'', sub_li ''ata.html'', sub_li ''grading-guide.html''],
      main_li ''Settings''
        [sub_li ''scorecards.html'',
         sub_li ''user-management.html'',
         \<lparr>href = ''access-control.html'', sub_id = ''accessControlMenuItem'',
          sub_display = ''none''\<rparr>,
         sub_li ''profile.html''],
      main_li ''Help''
        [sub_li ''help.html'', sub_li ''bug-report.html'', sub_li ''bug-reports-view.html'']]"

text \<open>An entry of the menu, named by the selector that finds it.\<close>

datatype menu_link = MenuItem string | SubmenuItem string

text \<open>The \<^verbatim>\<open>li\<close> elements whose own inline display is \<^verbatim>\<open>none\<close>.\<close>

definition styled_none :: "menu_li list \<Rightarrow> menu_link list" where
  "styled_none doc =
     concat (map (\<lambda>m. (if li_display m = ''none'' then [MenuItem (label m)] else []) @
                      map (\<lambda>s. SubmenuItem (href s))
                        (filter (\<lambda>s. sub_display s = ''none'') (submenu m)))
               doc)"

text \<open>
  The entries that are off the page: an entry whose own \<^verbatim>\<open>li\<close> has the display
  \<^verbatim>\<open>none\<close>, and a submenu entry inside a main-menu \<^verbatim>\<open>li\<close> that has it.
\<close>

definition hidden_links :: "menu_li list \<Rightarrow> menu_link list" where
  "hidden_links doc =
     concat (map (\<lambda>m. (if li_display m = ''none'' then [MenuItem (label m)] else []) @
                      map (\<lambda>s. SubmenuItem (href s))
                        (filter (\<lambda>s. li_display m = ''none'' \<or> sub_display s = ''none'')
                           (submenu m)))
               doc)"

text \<open>What is in the second list and not in the first.\<close>

definition added :: "menu_link list \<Rightarrow> menu_link list \<Rightarrow> menu_link list" where
  "added old new = filter (\<lambda>l. l \<notin> set old) new"

section \<open>Properties of the classifier\<close>

lemma lit_eq_iff [simp]: "lit a = lit b \<longleftrightarrow> a = b"
  by (simp add: lit_def inj_map_eq_map inj_on_def)

lemma lit_empty [simp]: "lit s = [] \<longleftrightarrow> s = []" "[] = lit s \<longleftrightarrow> s = []"
  by (auto simp add: lit_def)

lemmas classifier_defs =
  getReversalWorkflowState_def isPendingWorkflowState_def hasTeamLeadReviewed_def
  teamLeadApproved_def teamLeadRejected_def and_trim_def ackStatus_def
  legacyWorkflowState_def list_includes_def pendingStates_def get_def
  asciiLowerCase_def trim_def is_space_def lit_def

lemma and_trim_text: "text_or_null v \<Longrightarrow> \<exists>b. and_trim v = Inr b"
  by (cases v) (auto simp add: and_trim_def)

lemma hasTeamLeadReviewed_text:
  assumes "text_or_null (get r ''team_lead_reviewed_by'')"
    and "text_or_null (get r ''teamLeadReviewedBy'')"
  shows "\<exists>b. hasTeamLeadReviewed r = Inr b"
proof -
  obtain b1 where b1: "and_trim (get r ''team_lead_reviewed_by'') = Inr b1"
    using and_trim_text [OF assms(1)] by blast
  obtain b2 where b2: "and_trim (get r ''teamLeadReviewedBy'') = Inr b2"
    using and_trim_text [OF assms(2)] by blast
  show ?thesis
    by (cases b1) (auto simp add: hasTeamLeadReviewed_def b1 b2)
qed

lemma ackStatus_text:
  assumes "text_or_null (get r ''acknowledgement_status'')"
    and "text_or_null (get r ''acknowledgementStatus'')"
  shows "\<exists>s. ackStatus toLowerCase r = Inr s"
proof (cases "get r ''acknowledgement_status''")
  case (JStr s)
  then show ?thesis
    using assms(2)
    by (cases "get r ''acknowledgementStatus''") (simp_all add: ackStatus_def)
next
  case Null
  then show ?thesis
    using assms(2)
    by (cases "get r ''acknowledgementStatus''") (simp_all add: ackStatus_def)
next
  case Undefined
  then show ?thesis
    using assms(2)
    by (cases "get r ''acknowledgementStatus''") (simp_all add: ackStatus_def)
qed (use assms(1) in simp_all)

lemma legacyWorkflowState_label: "legacyWorkflowState s a \<in> set workflow_labels"
  by (simp add: legacyWorkflowState_def workflow_labels_def)

text \<open>
  Claim C1, as amended. For a record whose \<^verbatim>\<open>reversal_workflow_state\<close> is truthy and
  whose reviewer-name fields are strings, null or absent, \<^verbatim>\<open>getReversalWorkflowState\<close>
  returns \<^verbatim>\<open>team_lead_review\<close>, \<^verbatim>\<open>team_lead_rejected\<close> or the explicit state itself,
  unchanged. So the result is one of the ten labels whenever the explicit state is one
  of them; an explicit state outside the ten labels can come back as it is.
\<close>

theorem explicit_state_override_or_verbatim:
  assumes "truthy (get r ''reversal_workflow_state'')"
    and "text_or_null (get r ''team_lead_reviewed_by'')"
    and "text_or_null (get r ''teamLeadReviewedBy'')"
  shows "\<exists>v. getReversalWorkflowState toLowerCase r = Inr v \<and>
             (v = JStr (lit ''team_lead_review'') \<or> v = JStr (lit ''team_lead_rejected'') \<or>
              v = get r ''reversal_workflow_state'') \<and>
             (is_label (get r ''reversal_workflow_state'') \<longrightarrow> is_label v)"
proof -
  obtain b where b: "hasTeamLeadReviewed r = Inr b"
    using hasTeamLeadReviewed_text [OF assms(2,3)] by blast
  have l1: "is_label (JStr (lit ''team_lead_review''))"
    and l2: "is_label (JStr (lit ''team_lead_rejected''))"
    by (simp_all add: is_label_def workflow_labels_def)
  show ?thesis
    using assms(1) l1 l2 by (simp add: getReversalWorkflowState_def b Let_def)
qed

theorem explicit_state_override_or_verbatim_witness:
  "truthy (get [''reversal_workflow_state'' \<mapsto> JStr (lit ''cqc_review'')]
             ''reversal_workflow_state'') \<and>
   text_or_null (get [''reversal_workflow_state'' \<mapsto> JStr (lit ''cqc_review'')]
                   ''team_lead_reviewed_by'') \<and>
   text_or_null (get [''reversal_workflow_state'' \<mapsto> JStr (lit ''cqc_review'')]
                   ''teamLeadReviewedBy'') \<and>
   (\<exists>v. getReversalWorkflowState asciiLowerCase
          [''reversal_workflow_state'' \<mapsto> JStr (lit ''cqc_review'')] = Inr v \<and>
        is_label v)"
proof -
  let ?r = "[''reversal_workflow_state'' \<mapsto> JStr (lit ''cqc_review'')]"
  have h1: "truthy (get ?r ''reversal_workflow_state'')"
    by (simp add: get_def lit_def)
  have h2: "text_or_null (get ?r ''team_lead_reviewed_by'')"
    by (simp add: get_def)
  have h3: "text_or_null (get ?r ''teamLeadReviewedBy'')"
    by (simp add: get_def)
  have l: "is_label (get ?r ''reversal_workflow_state'')"
    by (simp add: get_def is_label_def workflow_labels_def)
  from explicit_state_override_or_verbatim [OF h1 h2 h3, of asciiLowerCase] l
  have "\<exists>v. getReversalWorkflowState asciiLowerCase ?r = Inr v \<and> is_label v"
    by blast
  with h1 h2 h3 show ?thesis by blast
qed

text \<open>
  Claim C1 as stated fails: the explicit state \<^verbatim>\<open>submitted\<close> is returned as it is, and
  it is none of the ten labels. And a reviewer name that is a number has no \<^verbatim>\<open>trim\<close>,
  so that the classifier throws and returns no label at all.
\<close>

theorem submitted_state_returned_verbatim:
  "truthy (get [''reversal_workflow_state'' \<mapsto> JStr (lit ''submitted'')]
             ''reversal_workflow_state'') \<and>
   getReversalWorkflowState asciiLowerCase
     [''reversal_workflow_state'' \<mapsto> JStr (lit ''submitted'')] =
     Inr (JStr (lit ''submitted'')) \<and>
   \<not> is_label (JStr (lit ''submitted'')) \<and>
   getReversalWorkflowState asciiLowerCase
     [''reversal_workflow_state'' \<mapsto> JStr (lit ''approved''),
      ''team_lead_reviewed_by'' \<mapsto> JNum 7] = Inl TypeError"
  by (simp add: classifier_defs is_label_def workflow_labels_def)

text \<open>
  Claim C3, as amended. When either spelling of \<^verbatim>\<open>team_lead_approved\<close> is exactly
  \<^verbatim>\<open>true\<close>, \<^verbatim>\<open>'true'\<close>, \<^verbatim>\<open>1\<close> or \<^verbatim>\<open>'1'\<close> and \<^verbatim>\<open>reversal_approved\<close> is null or absent,
  \<^verbatim>\<open>isPendingWorkflowState\<close> returns true, provided the record has a truthy explicit
  state or its two legacy status fields are strings, null or absent.
\<close>

theorem team_lead_approved_undecided_is_pending:
  assumes "teamLeadApproved r"
    and "get r ''reversal_approved'' = Null \<or> get r ''reversal_approved'' = Undefined"
    and "truthy (get r ''reversal_workflow_state'') \<or>
         text_or_null (get r ''acknowledgement_status'') \<and>
         text_or_null (get r ''acknowledgementStatus'')"
  shows "isPendingWorkflowState toLowerCase r = Inr True"
proof -
  have "\<exists>w. getReversalWorkflowState toLowerCase r = Inr w"
  proof (cases "truthy (get r ''reversal_workflow_state'')")
    case True
    then show ?thesis
      using assms(1) by (simp add: getReversalWorkflowState_def hasTeamLeadReviewed_def Let_def)
  next
    case False
    with assms(3) obtain s where "ackStatus toLowerCase r = Inr s"
      using ackStatus_text by blast
    with False show ?thesis
      by (simp add: getReversalWorkflowState_def)
  qed
  then obtain w where "getReversalWorkflowState toLowerCase r = Inr w" ..
  then show ?thesis
    using assms(1,2) by (auto simp add: isPendingWorkflowState_def Let_def)
qed

theorem team_lead_approved_undecided_is_pending_witness:
  "teamLeadApproved [''teamLeadApproved'' \<mapsto> JStr (lit ''1''),
                     ''acknowledgement_status'' \<mapsto> JStr (lit ''reversal_approved'')] \<and>
   get [''teamLeadApproved'' \<mapsto> JStr (lit ''1''),
        ''acknowledgement_status'' \<mapsto> JStr (lit ''reversal_approved'')]
     ''reversal_approved'' = Undefined \<and>
   isPendingWorkflowState asciiLowerCase
     [''teamLeadApproved'' \<mapsto> JStr (lit ''1''),
      ''acknowledgement_status'' \<mapsto> JStr (lit ''reversal_approved'')] = Inr True"
proof -
  let ?r = "[''teamLeadApproved'' \<mapsto> JStr (lit ''1''),
             ''acknowledgement_status'' \<mapsto> JStr (lit ''reversal_approved'')]"
  have h1: "teamLeadApproved ?r"
    by (simp add: teamLeadApproved_def get_def)
  have h2: "get ?r ''reversal_approved'' = Undefined"
    by (simp add: get_def)
  have h3: "text_or_null (get ?r ''acknowledgement_status'') \<and>
            text_or_null (get ?r ''acknowledgementStatus'')"
    by (simp add: get_def)
  from h2 have h2': "get ?r ''reversal_approved'' = Null \<or> get ?r ''reversal_approved'' = Undefined"
    by (rule disjI2)
  from h3 have h3': "truthy (get ?r ''reversal_workflow_state'') \<or>
      text_or_null (get ?r ''acknowledgement_status'') \<and>
      text_or_null (get ?r ''acknowledgementStatus'')"
    by (rule disjI2)
  from team_lead_approved_undecided_is_pending [OF h1 h2' h3', of asciiLowerCase] h1 h2
  show ?thesis by (intro conjI)
qed

text \<open>
  Claim C3 as stated fails twice. The string \<^verbatim>\<open>'yes'\<close> is truthy, but it is none of the
  four values the predicate compares with, and the record is not pending. And with
  \<^verbatim>\<open>team_lead_approved\<close> true, a legacy status that is a number makes the classifier
  throw before the predicate can answer.
\<close>

theorem unrecognised_approval_not_pending:
  "truthy (JStr (lit ''yes'')) \<and>
   isPendingWorkflowState asciiLowerCase
     [''team_lead_approved'' \<mapsto> JStr (lit ''yes''),
      ''acknowledgement_status'' \<mapsto> JStr (lit ''reversal_approved'')] = Inr False \<and>
   isPendingWorkflowState asciiLowerCase
     [''team_lead_approved'' \<mapsto> JBool True,
      ''acknowledgement_status'' \<mapsto> JNum 5] = Inl TypeError"
  by (simp add: classifier_defs)

text \<open>
  Claim C4, as amended. For a record whose explicit state is \<^verbatim>\<open>qa_review\<close> and whose
  reviewer-name fields are absent or blank (empty once \<^verbatim>\<open>trim\<close> has removed the white
  space), the classifier returns \<^verbatim>\<open>team_lead_review\<close> exactly when neither spelling of
  \<^verbatim>\<open>team_lead_approved\<close> holds one of the eight recognised approval or rejection values;
  with a recorded rejection it returns \<^verbatim>\<open>team_lead_rejected\<close>, and with a recorded
  approval only, \<^verbatim>\<open>qa_review\<close>.
\<close>

theorem qa_review_without_reviewer_name:
  assumes "get r ''reversal_workflow_state'' = JStr (lit ''qa_review'')"
    and "no_reviewer_name (get r ''team_lead_reviewed_by'')"
    and "no_reviewer_name (get r ''teamLeadReviewedBy'')"
  shows "getReversalWorkflowState toLowerCase r =
           Inr (JStr (lit (if teamLeadRejected r then ''team_lead_rejected''
                           else if teamLeadApproved r then ''qa_review''
                           else ''team_lead_review'')))"
proof -
  have t: "\<And>v. no_reviewer_name v \<Longrightarrow> and_trim v = Inr False"
    by (auto simp add: no_reviewer_name_def and_trim_def split: jsval.splits)
  have "hasTeamLeadReviewed r = Inr (teamLeadApproved r \<or> teamLeadRejected r)"
    by (simp add: hasTeamLeadReviewed_def t [OF assms(2)] t [OF assms(3)])
  moreover have "truthy (JStr (lit ''qa_review''))"
    by (simp add: lit_def)
  ultimately show ?thesis
    using assms(1) by (simp add: getReversalWorkflowState_def Let_def)
qed

theorem qa_review_without_reviewer_name_witness:
  "get [''reversal_workflow_state'' \<mapsto> JStr (lit ''qa_review''),
        ''team_lead_reviewed_by'' \<mapsto> JStr [0xA0, 0x20]] ''reversal_workflow_state'' =
     JStr (lit ''qa_review'') \<and>
   no_reviewer_name (get [''reversal_workflow_state'' \<mapsto> JStr (lit ''qa_review''),
                          ''team_lead_reviewed_by'' \<mapsto> JStr [0xA0, 0x20]]
                       ''team_lead_reviewed_by'') \<and>
   no_reviewer_name (get [''reversal_workflow_state'' \<mapsto> JStr (lit ''qa_review''),
                          ''team_lead_reviewed_by'' \<mapsto> JStr [0xA0, 0x20]]
                       ''teamLeadReviewedBy'') \<and>
   getReversalWorkflowState asciiLowerCase
     [''reversal_workflow_state'' \<mapsto> JStr (lit ''qa_review''),
      ''team_lead_reviewed_by'' \<mapsto> JStr [0xA0, 0x20]] =
     Inr (JStr (lit ''team_lead_review''))"
proof -
  let ?r = "[''reversal_workflow_state'' \<mapsto> JStr (lit ''qa_review''),
             ''team_lead_reviewed_by'' \<mapsto> JStr [0xA0, 0x20]]"
  have h1: "get ?r ''reversal_workflow_state'' = JStr (lit ''qa_review'')"
    by (simp add: get_def)
  have h2: "no_reviewer_name (get ?r ''team_lead_reviewed_by'')"
    by (simp add: get_def no_reviewer_name_def trim_def is_space_def)
  have h3: "no_reviewer_name (get ?r ''teamLeadReviewedBy'')"
    by (simp add: get_def no_reviewer_name_def)
  have n: "\<not> teamLeadRejected ?r" "\<not> teamLeadApproved ?r"
    by (simp_all add: teamLeadRejected_def teamLeadApproved_def get_def)
  from qa_review_without_reviewer_name [OF h1 h2 h3, of asciiLowerCase] n
  have "getReversalWorkflowState asciiLowerCase ?r = Inr (JStr (lit ''team_lead_review''))"
    by simp
  with h1 h2 h3 show ?thesis by (intro conjI)
qed

text \<open>
  Claim C4 as stated fails: with no reviewer name but a recorded team-lead approval,
  the explicit state \<^verbatim>\<open>qa_review\<close> is kept.
\<close>

theorem qa_review_kept_after_approval:
  "no_reviewer_name (get [''reversal_workflow_state'' \<mapsto> JStr (lit ''qa_review''),
                          ''team_lead_approved'' \<mapsto> JBool True] ''team_lead_reviewed_by'') \<and>
   no_reviewer_name (get [''reversal_workflow_state'' \<mapsto> JStr (lit ''qa_review''),
                          ''team_lead_approved'' \<mapsto> JBool True] ''teamLeadReviewedBy'') \<and>
   getReversalWorkflowState asciiLowerCase
     [''reversal_workflow_state'' \<mapsto> JStr (lit ''qa_review''),
      ''team_lead_approved'' \<mapsto> JBool True] = Inr (JStr (lit ''qa_review''))"
  by (simp add: classifier_defs no_reviewer_name_def)

text \<open>
  Claim C5. Take a record with no truthy explicit state whose lower-cased legacy status
  contains none of the keywords. Then the classifier reads \<^verbatim>\<open>reversal_approved\<close> so:
  null or absent gives \<^verbatim>\<open>pending\<close>; each truthy value the code accepts (\<^verbatim>\<open>true\<close>,
  \<^verbatim>\<open>'true'\<close>, \<^verbatim>\<open>1\<close>, \<^verbatim>\<open>'1'\<close>) gives \<^verbatim>\<open>approved\<close>; each falsy value it accepts (\<^verbatim>\<open>false\<close>,
  \<^verbatim>\<open>'false'\<close>, \<^verbatim>\<open>0\<close>, \<^verbatim>\<open>'0'\<close>) gives \<^verbatim>\<open>rejected\<close>.
\<close>

theorem legacy_approved_field_mapping:
  assumes "\<not> truthy (get r ''reversal_workflow_state'')"
    and "ackStatus toLowerCase r = Inr status"
    and "\<forall>k \<in> set status_keywords. \<not> str_includes status (lit k)"
  shows "(get r ''reversal_approved'' = Null \<or> get r ''reversal_approved'' = Undefined \<longrightarrow>
            getReversalWorkflowState toLowerCase r = Inr (JStr (lit ''pending''))) \<and>
         (get r ''reversal_approved'' \<in>
            {JBool True, JStr (lit ''true''), JNum 1, JStr (lit ''1'')} \<longrightarrow>
            getReversalWorkflowState toLowerCase r = Inr (JStr (lit ''approved''))) \<and>
         (get r ''reversal_approved'' \<in>
            {JBool False, JStr (lit ''false''), JNum 0, JStr (lit ''0'')} \<longrightarrow>
            getReversalWorkflowState toLowerCase r = Inr (JStr (lit ''rejected'')))"
proof -
  have "str_includes (lit ''acknowledged'') (lit ''acknowledged'')"
    by (simp add: lit_def)
  with assms(3) have "status \<noteq> lit ''acknowledged''"
    by (auto simp add: status_keywords_def)
  then have "legacyWorkflowState status (get r ''reversal_approved'') =
      (let approved = get r ''reversal_approved'' in
       if approved = Null \<or> approved = Undefined then ''pending''
       else if approved = JBool True \<or> approved = JStr (lit ''true'') \<or> approved = JNum 1 \<or>
               approved = JStr (lit ''1'') then ''approved''
       else if approved = JBool False \<or> approved = JStr (lit ''false'') \<or> approved = JNum 0 \<or>
               approved = JStr (lit ''0'') then ''rejected''
       else ''pending'')"
    using assms(3) by (simp add: legacyWorkflowState_def status_keywords_def Let_def)
  then show ?thesis
    using assms(1,2) by (auto simp add: getReversalWorkflowState_def Let_def)
qed

theorem legacy_approved_field_mapping_witness:
  "\<not> truthy (get [''acknowledgement_status'' \<mapsto> JStr (lit ''Pending''),
                   ''reversal_approved'' \<mapsto> JStr (lit ''false'')] ''reversal_workflow_state'') \<and>
   ackStatus asciiLowerCase [''acknowledgement_status'' \<mapsto> JStr (lit ''Pending''),
                             ''reversal_approved'' \<mapsto> JStr (lit ''false'')] =
     Inr (lit ''pending'') \<and>
   filter (\<lambda>k. str_includes (lit ''pending'') (lit k)) status_keywords = [] \<and>
   getReversalWorkflowState asciiLowerCase
     [''acknowledgement_status'' \<mapsto> JStr (lit ''Pending''),
      ''reversal_approved'' \<mapsto> JStr (lit ''false'')] = Inr (JStr (lit ''rejected''))"
proof -
  let ?r = "[''acknowledgement_status'' \<mapsto> JStr (lit ''Pending''),
             ''reversal_approved'' \<mapsto> JStr (lit ''false'')]"
  have h1: "\<not> truthy (get ?r ''reversal_workflow_state'')"
    by (simp add: get_def)
  have h2: "ackStatus asciiLowerCase ?r = Inr (lit ''pending'')"
    by (simp add: ackStatus_def get_def asciiLowerCase_def lit_def)
  have h3: "\<forall>k \<in> set status_keywords. \<not> str_includes (lit ''pending'') (lit k)"
    by (simp add: status_keywords_def lit_def)
  have a: "get ?r ''reversal_approved'' = JStr (lit ''false'')"
    by (simp add: get_def)
  from legacy_approved_field_mapping [OF h1 h2 h3]
  have "getReversalWorkflowState asciiLowerCase ?r = Inr (JStr (lit ''rejected''))"
    by (simp add: a)
  moreover have "filter (\<lambda>k. str_includes (lit ''pending'') (lit k)) status_keywords = []"
    by (simp add: status_keywords_def lit_def)
  ultimately show ?thesis using h1 h2 by (intro conjI)
qed

text \<open>
  Claim C9. \<^verbatim>\<open>isPendingWorkflowState\<close> and the same function without its last test
  agree on every record, in the value returned and in the exception thrown: a state
  \<^verbatim>\<open>qa_review\<close> or \<^verbatim>\<open>cqc_review\<close> is in \<^verbatim>\<open>pendingStates\<close>, so the first test has
  already returned true.
\<close>

theorem final_pending_clause_redundant:
  "isPendingWorkflowState toLowerCase r =
     isPendingWorkflowState_without_final_clause toLowerCase r"
proof (cases "getReversalWorkflowState toLowerCase r")
  case (Inl e)
  then show ?thesis
    by (simp add: isPendingWorkflowState_def isPendingWorkflowState_without_final_clause_def)
next
  case (Inr w)
  have "w = JStr (lit ''qa_review'') \<or> w = JStr (lit ''cqc_review'') \<Longrightarrow>
        list_includes pendingStates w"
    by (auto simp add: list_includes_def pendingStates_def)
  with Inr show ?thesis
    by (auto simp add: isPendingWorkflowState_def isPendingWorkflowState_without_final_clause_def
        Let_def split: sum.splits)
qed

theorem final_pending_clause_redundant_witness:
  "isPendingWorkflowState_without_final_clause asciiLowerCase
     [''reversal_workflow_state'' \<mapsto> JStr (lit ''cqc_review''),
      ''team_lead_reviewed_by'' \<mapsto> JStr (lit ''Sam'')] = Inr True"
proof -
  have "isPendingWorkflowState asciiLowerCase
          [''reversal_workflow_state'' \<mapsto> JStr (lit ''cqc_review''),
           ''team_lead_reviewed_by'' \<mapsto> JStr (lit ''Sam'')] = Inr True"
    by (simp add: classifier_defs)
  with final_pending_clause_redundant
         [of asciiLowerCase "[''reversal_workflow_state'' \<mapsto> JStr (lit ''cqc_review''),
               ''team_lead_reviewed_by'' \<mapsto> JStr (lit ''Sam'')]"]
  show ?thesis by simp
qed

text \<open>
  Claim C10, as amended. For a record with no truthy explicit state whose two legacy
  status fields are strings, null or absent, the classifier returns one of the ten
  labels, whatever \<^verbatim>\<open>reversal_approved\<close> holds.
\<close>

theorem legacy_path_returns_label:
  assumes "\<not> truthy (get r ''reversal_workflow_state'')"
    and "text_or_null (get r ''acknowledgement_status'')"
    and "text_or_null (get r ''acknowledgementStatus'')"
  shows "\<exists>l \<in> set workflow_labels. getReversalWorkflowState toLowerCase r = Inr (JStr (lit l))"
proof -
  obtain s where "ackStatus toLowerCase r = Inr s"
    using ackStatus_text [OF assms(2,3)] by blast
  with assms(1) show ?thesis
    using legacyWorkflowState_label [of s "get r ''reversal_approved''"]
    by (auto simp add: getReversalWorkflowState_def)
qed

theorem legacy_path_returns_label_witness:
  "\<not> truthy (get [''acknowledgementStatus'' \<mapsto> JStr (lit ''Auditor_Review''),
                   ''reversal_approved'' \<mapsto> JObject] ''reversal_workflow_state'') \<and>
   text_or_null (get [''acknowledgementStatus'' \<mapsto> JStr (lit ''Auditor_Review''),
                      ''reversal_approved'' \<mapsto> JObject] ''acknowledgement_status'') \<and>
   text_or_null (get [''acknowledgementStatus'' \<mapsto> JStr (lit ''Auditor_Review''),
                      ''reversal_approved'' \<mapsto> JObject] ''acknowledgementStatus'') \<and>
   (\<exists>l \<in> set workflow_labels.
      getReversalWorkflowState asciiLowerCase
        [''acknowledgementStatus'' \<mapsto> JStr (lit ''Auditor_Review''),
         ''reversal_approved'' \<mapsto> JObject] = Inr (JStr (lit l)))"
proof -
  let ?r = "[''acknowledgementStatus'' \<mapsto> JStr (lit ''Auditor_Review''),
             ''reversal_approved'' \<mapsto> JObject]"
  have h1: "\<not> truthy (get ?r ''reversal_workflow_state'')"
    by (simp add: get_def)
  have h2: "text_or_null (get ?r ''acknowledgement_status'')"
    by (simp add: get_def)
  have h3: "text_or_null (get ?r ''acknowledgementStatus'')"
    by (simp add: get_def)
  from legacy_path_returns_label [OF h1 h2 h3, of asciiLowerCase] h1 h2 h3
  show ?thesis by (intro conjI)
qed

text \<open>
  Claim C10 as stated fails: a legacy status that is a number has no
  \<^verbatim>\<open>toLowerCase\<close>, and the classifier throws instead of returning a label.
\<close>

theorem legacy_path_numeric_status_throws:
  "\<not> truthy (get [''acknowledgement_status'' \<mapsto> JNum 5] ''reversal_workflow_state'') \<and>
   getReversalWorkflowState asciiLowerCase [''acknowledgement_status'' \<mapsto> JNum 5] =
     Inl TypeError"
  by (simp add: classifier_defs)

section \<open>Properties of the cache and the badges\<close>

lemma digit_plain: "is_digit c \<Longrightarrow> \<not> is_space c \<and> c \<noteq> 45 \<and> c \<noteq> 43"
  by (auto simp add: is_digit_def is_space_def)

lemma nat_toString_digits: "\<forall>c \<in> set (nat_toString n). is_digit c"
proof (induction n rule: nat_toString.induct)
  case (1 n)
  show ?case
  proof (cases "n < 10")
    case True
    then show ?thesis
      by (subst nat_toString.simps) (simp add: is_digit_def)
  next
    case False
    have "n mod 10 < 10" by simp
    then have "is_digit (48 + n mod 10)"
      by (simp add: is_digit_def)
    with False 1 show ?thesis
      by (subst nat_toString.simps) simp
  qed
qed

lemma nat_toString_nonempty: "nat_toString n \<noteq> []"
  by (subst nat_toString.simps) simp

lemma digits_value_snoc: "digits_value (ds @ [c]) = 10 * digits_value ds + (c - 48)"
  by (simp add: digits_value_def)

lemma digits_value_nat_toString: "digits_value (nat_toString n) = n"
proof (induction n rule: nat_toString.induct)
  case (1 n)
  show ?case
  proof (cases "n < 10")
    case True
    then show ?thesis
      by (subst nat_toString.simps) (simp add: digits_value_def)
  next
    case False
    from False 1 have "digits_value (nat_toString (n div 10)) = n div 10" by simp
    with False show ?thesis
      by (subst nat_toString.simps) (simp add: digits_value_snoc)
  qed
qed

lemma parseInt_nat_toString: "parseInt (nat_toString n) = Num (int n)"
proof -
  obtain c cs where h: "nat_toString n = c # cs"
    using nat_toString_nonempty [of n] by (cases "nat_toString n") auto
  have "is_digit c"
    using nat_toString_digits [of n] h by simp
  then have p: "\<not> is_space c" "c \<noteq> 45" "c \<noteq> 43"
    using digit_plain by blast+
  have t: "takeWhile is_digit (nat_toString n) = nat_toString n"
    using nat_toString_digits by (simp add: takeWhile_eq_all_conv)
  have d: "digits_value (c # cs) = n"
    using digits_value_nat_toString [of n] h by simp
  from t h have t': "takeWhile is_digit (c # cs) = c # cs" by simp
  show ?thesis
    unfolding parseInt_def h using p
    by (simp add: Let_def t' d del: takeWhile.simps)
qed

lemma parseInt_minus_nat_toString: "parseInt (45 # nat_toString n) = Num (- int n)"
proof -
  have s: "\<not> is_space 45" by (simp add: is_space_def)
  have t: "takeWhile is_digit (nat_toString n) = nat_toString n"
    using nat_toString_digits by (simp add: takeWhile_eq_all_conv)
  show ?thesis
    unfolding parseInt_def using s nat_toString_nonempty [of n]
    by (simp add: Let_def t digits_value_nat_toString)
qed

lemma parseInt_int_toString: "parseInt (int_toString i) = Num i"
  by (simp add: int_toString_def parseInt_nat_toString parseInt_minus_nat_toString)

lemma int_toString_nonempty: "int_toString i \<noteq> []"
  by (simp add: int_toString_def nat_toString_nonempty)

lemma cache_keys_distinct:
  "lit ''notification_count_'' @ ty @ lit ''_'' @ e \<noteq>
   lit ''notification_count_'' @ ty @ lit ''_timestamp_'' @ e"
proof
  assume "lit ''notification_count_'' @ ty @ lit ''_'' @ e =
          lit ''notification_count_'' @ ty @ lit ''_timestamp_'' @ e"
  then have "length (lit ''notification_count_'' @ ty @ lit ''_'' @ e) =
             length (lit ''notification_count_'' @ ty @ lit ''_timestamp_'' @ e)"
    by (rule arg_cong)
  then show False by (simp add: lit_def)
qed


text \<open>
  Claim C6. A count written by \<^verbatim>\<open>setCachedNotificationCount\<close> for a category and a
  user is read back by \<^verbatim>\<open>getCachedNotificationCount\<close> for the same category and user
  as long as at most 300000 ms (5 minutes) have passed since the write, and the
  storage is left as written; after that the read gives null and removes the value
  and its timestamp. This holds for every count and category, so for the count 42 and
  the category \<^verbatim>\<open>reversals\<close>; the user is any for whom the key can be built (no user,
  no email, or a string email).
\<close>

theorem cache_round_trip:
  assumes "cacheUserEmail toLowerCase userInfo = Inr email"
  shows "let written = setCachedNotificationCount toLowerCase userInfo written_at type count store;
             cacheKey = lit ''notification_count_'' @ type @ lit ''_'' @ email;
             timestampKey = lit ''notification_count_'' @ type @ lit ''_timestamp_'' @ email
         in (read_at - written_at \<le> 300000 \<longrightarrow>
               getCachedNotificationCount toLowerCase userInfo read_at type written =
                 (Some (Num count), written)) \<and>
            (read_at - written_at > 300000 \<longrightarrow>
               getCachedNotificationCount toLowerCase userInfo read_at type written =
                 (None, (written(cacheKey := None))(timestampKey := None)))"
proof -
  let ?k = "lit ''notification_count_'' @ type @ lit ''_'' @ email"
  let ?t = "lit ''notification_count_'' @ type @ lit ''_timestamp_'' @ email"
  let ?w = "(store(?k \<mapsto> int_toString count))(?t \<mapsto> int_toString written_at)"
  have k: "getNotificationCacheKey toLowerCase userInfo type = Inr ?k"
    by (simp add: getNotificationCacheKey_def assms)
  have t: "getNotificationCacheTimestampKey toLowerCase userInfo type = Inr ?t"
    by (simp add: getNotificationCacheTimestampKey_def assms)
  have d: "?k \<noteq> ?t" by (rule cache_keys_distinct)
  have w: "setCachedNotificationCount toLowerCase userInfo written_at type count store = ?w"
    by (simp add: setCachedNotificationCount_def k t)
  have r1: "?w ?k = Some (int_toString count)"
    using d by (simp del: append_eq_append_conv)
  have r2: "?w ?t = Some (int_toString written_at)"
    by simp
  show ?thesis
    unfolding Let_def w getCachedNotificationCount_def k t
    by (simp only: r1 r2 sum.case prod.case option.case parseInt_int_toString cacheExpired_def
          jsnum.case CACHE_DURATION_MS_def int_toString_nonempty)
       simp
qed

theorem cache_round_trip_witness:
  "cacheUserEmail asciiLowerCase (Some [''email'' \<mapsto> JStr (lit ''a@x.com'')]) =
     Inr (lit ''a@x.com'') \<and>
   fst (getCachedNotificationCount asciiLowerCase (Some [''email'' \<mapsto> JStr (lit ''a@x.com'')])
          301000 (lit ''reversals'')
          (setCachedNotificationCount asciiLowerCase (Some [''email'' \<mapsto> JStr (lit ''a@x.com'')])
             1000 (lit ''reversals'') 42 Map.empty)) = Some (Num 42) \<and>
   fst (getCachedNotificationCount asciiLowerCase (Some [''email'' \<mapsto> JStr (lit ''a@x.com'')])
          301001 (lit ''reversals'')
          (setCachedNotificationCount asciiLowerCase (Some [''email'' \<mapsto> JStr (lit ''a@x.com'')])
             1000 (lit ''reversals'') 42 Map.empty)) = None"
proof -
  let ?u = "Some [''email'' \<mapsto> JStr (lit ''a@x.com'')]"
  have h: "cacheUserEmail asciiLowerCase ?u = Inr (lit ''a@x.com'')"
    by (simp add: cacheUserEmail_def get_def asciiLowerCase_def trim_def is_space_def lit_def)
  have hit: "fst (getCachedNotificationCount asciiLowerCase ?u 301000 (lit ''reversals'')
               (setCachedNotificationCount asciiLowerCase ?u 1000 (lit ''reversals'') 42
                  Map.empty)) = Some (Num 42)"
    using cache_round_trip [OF h, where read_at = 301000 and written_at = 1000
        and type = "lit ''reversals''" and count = 42 and store = Map.empty]
    by (simp add: Let_def)
  have miss: "fst (getCachedNotificationCount asciiLowerCase ?u 301001 (lit ''reversals'')
               (setCachedNotificationCount asciiLowerCase ?u 1000 (lit ''reversals'') 42
                  Map.empty)) = None"
    using cache_round_trip [OF h, where read_at = 301001 and written_at = 1000
        and type = "lit ''reversals''" and count = 42 and store = Map.empty]
    by (simp add: Let_def)
  from h hit miss show ?thesis by (intro conjI)
qed

text \<open>
  Claim C7, as amended. On a document that has the badge, \<^verbatim>\<open>setReversalBadgeCount\<close> and
  \<^verbatim>\<open>setAcknowledgmentBadgeCount\<close> hide the badge for a count of 0 (and below), show the
  decimal numeral of a count from 1 to 99, and show \<^verbatim>\<open>99+\<close> for a count of 100 or more.
  \<^verbatim>\<open>setEmployeeReversalBadgeCount\<close> does the same when no user is logged in or the user's
  role is \<^verbatim>\<open>Employee\<close>; for a logged-in user with any other role it hides the badge,
  whatever the count.
\<close>

theorem badge_display_contract:
  "rendered (setReversalBadgeCount (Num n) (Some b)) =
     (if n \<le> 0 then None else if n \<le> 99 then Some (int_toString n) else Some (lit ''99+'')) \<and>
   rendered (setAcknowledgmentBadgeCount (Num n) (Some b)) =
     (if n \<le> 0 then None else if n \<le> 99 then Some (int_toString n) else Some (lit ''99+'')) \<and>
   rendered (setEmployeeReversalBadgeCount userInfo (Num n) (Some b)) =
     (if \<exists>u. userInfo = Some u \<and> get u ''role'' \<noteq> JStr (lit ''Employee'') then None
      else if n \<le> 0 then None
      else if n \<le> 99 then Some (int_toString n)
      else Some (lit ''99+''))"
  by (cases userInfo)
     (simp_all add: rendered_def setReversalBadgeCount_def setAcknowledgmentBadgeCount_def
        setEmployeeReversalBadgeCount_def showCount_def)

theorem badge_display_contract_witness:
  "rendered (setReversalBadgeCount (Num 150) (Some \<lparr>textContent = lit ''0'', display = ''none''\<rparr>)) =
     Some (lit ''99+'') \<and>
   rendered (setAcknowledgmentBadgeCount (Num 7)
               (Some \<lparr>textContent = lit ''0'', display = ''none''\<rparr>)) = Some (lit ''7'') \<and>
   rendered (setReversalBadgeCount (Num 0)
               (Some \<lparr>textContent = lit ''7'', display = ''inline-flex''\<rparr>)) = None \<and>
   rendered (setEmployeeReversalBadgeCount (Some [''role'' \<mapsto> JStr (lit ''Employee'')]) (Num 7)
               (Some \<lparr>textContent = lit ''0'', display = ''none''\<rparr>)) = Some (lit ''7'')"
proof -
  have seven: "int_toString 7 = lit ''7''"
    by (simp add: int_toString_def nat_toString.simps lit_def)
  have e: "get [''role'' \<mapsto> JStr (lit ''Employee'')] ''role'' = JStr (lit ''Employee'')"
    by (simp add: get_def)
  from badge_display_contract
         [of 150 "\<lparr>textContent = lit ''0'', display = ''none''\<rparr>"]
       badge_display_contract
         [of 7 "\<lparr>textContent = lit ''0'', display = ''none''\<rparr>"
            "Some [''role'' \<mapsto> JStr (lit ''Employee'')]"]
       badge_display_contract
         [of 0 "\<lparr>textContent = lit ''7'', display = ''inline-flex''\<rparr>"]
  show ?thesis by (simp add: seven e)
qed

text \<open>
  Claim C7 as stated fails for the third badge: with an auditor logged in,
  \<^verbatim>\<open>setEmployeeReversalBadgeCount\<close> hides the badge for the count 7 instead of showing
  the numeral.
\<close>

theorem employee_badge_hidden_for_other_roles:
  "rendered (setEmployeeReversalBadgeCount (Some [''role'' \<mapsto> JStr (lit ''Auditor'')]) (Num 7)
               (Some \<lparr>textContent = lit ''0'', display = ''none''\<rparr>)) = None"
  by (simp add: rendered_def setEmployeeReversalBadgeCount_def get_def)

section \<open>Properties of the role gating\<close>

lemmas gating_defs =
  isEmployee_def isSuperAdmin_def applyRoleGating_def hideEmployeeMenuItems_def
  updateAccessControlMenuItem_def embeddedSidebar_def main_li_def sub_li_def
  hidden_links_def styled_none_def added_def

lemma employee_styled:
  "isEmployee userInfo \<Longrightarrow>
   added (styled_none embeddedSidebar)
     (styled_none (hideEmployeeMenuItems userInfo embeddedSidebar)) =
     [MenuItem ''Search'', MenuItem ''Auditor's Dashboard'', MenuItem ''Audit Distribution'',
      MenuItem ''Create New Audit'', MenuItem ''Improvement Corner'',
      SubmenuItem ''scorecards.html'', SubmenuItem ''user-management.html'']"
  by (cases userInfo) (simp_all add: gating_defs Let_def)

lemma employee_hidden:
  "isEmployee userInfo \<Longrightarrow>
   added (hidden_links embeddedSidebar)
     (hidden_links (hideEmployeeMenuItems userInfo embeddedSidebar)) =
     [MenuItem ''Search'', MenuItem ''Auditor's Dashboard'', MenuItem ''Audit Distribution'',
      MenuItem ''Create New Audit'', MenuItem ''Improvement Corner'',
      SubmenuItem ''calibration.html'', SubmenuItem ''ata.html'',
      SubmenuItem ''grading-guide.html'',
      SubmenuItem ''scorecards.html'', SubmenuItem ''user-management.html'']"
  by (cases userInfo) (simp_all add: gating_defs Let_def)

lemma employee_gated:
  "isEmployee userInfo \<Longrightarrow>
   hidden_links (applyRoleGating userInfo embeddedSidebar) =
     [MenuItem ''Search'', MenuItem ''Auditor's Dashboard'', MenuItem ''Audit Distribution'',
      MenuItem ''Create New Audit'', MenuItem ''Improvement Corner'',
      SubmenuItem ''calibration.html'', SubmenuItem ''ata.html'',
      SubmenuItem ''grading-guide.html'',
      SubmenuItem ''scorecards.html'', SubmenuItem ''user-management.html'',
      SubmenuItem ''access-control.html'']"
  by (cases userInfo) (simp_all add: gating_defs Let_def)

lemma other_gated:
  "\<not> isEmployee userInfo \<Longrightarrow>
   hidden_links (applyRoleGating userInfo embeddedSidebar) =
     (if isSuperAdmin userInfo then [] else [SubmenuItem ''access-control.html''])"
  by (cases userInfo) (simp_all add: gating_defs Let_def)

lemma employee_not_super_admin: "isEmployee userInfo \<Longrightarrow> \<not> isSuperAdmin userInfo"
  by (cases userInfo) (auto simp add: isEmployee_def isSuperAdmin_def)

text \<open>
  Claim C2, as amended. On the embedded sidebar, for a user whose role is
  \<^verbatim>\<open>Employee\<close>, \<^verbatim>\<open>hideEmployeeMenuItems\<close> sets the display \<^verbatim>\<open>none\<close> on exactly seven
  \<^verbatim>\<open>li\<close> elements: Search, Auditor's Dashboard, Audit Distribution, Create New Audit and
  Improvement Corner of the main menu, and Scorecards and User Management of the
  Settings submenu. That takes exactly ten entries off the page: those seven and the
  three entries of the Improvement Corner submenu (Calibration, ATA, Grading Guide),
  which are inside a hidden \<^verbatim>\<open>li\<close>. After the gating, the Profile entry is on the page
  for every user (neither its own \<^verbatim>\<open>li\<close> nor the Settings \<^verbatim>\<open>li\<close> around it is hidden), and
  the Access Control entry is on the page exactly when the role is \<^verbatim>\<open>Super Admin\<close>: it
  stays hidden for every other role and without a user.
\<close>

theorem role_gating_of_embedded_sidebar:
  "(isEmployee userInfo \<longrightarrow>
      added (styled_none embeddedSidebar)
        (styled_none (hideEmployeeMenuItems userInfo embeddedSidebar)) =
        [MenuItem ''Search'', MenuItem ''Auditor's Dashboard'', MenuItem ''Audit Distribution'',
         MenuItem ''Create New Audit'', MenuItem ''Improvement Corner'',
         SubmenuItem ''scorecards.html'', SubmenuItem ''user-management.html''] \<and>
      added (hidden_links embeddedSidebar)
        (hidden_links (hideEmployeeMenuItems userInfo embeddedSidebar)) =
        [MenuItem ''Search'', MenuItem ''Auditor's Dashboard'', MenuItem ''Audit Distribution'',
         MenuItem ''Create New Audit'', MenuItem ''Improvement Corner'',
         SubmenuItem ''calibration.html'', SubmenuItem ''ata.html'',
         SubmenuItem ''grading-guide.html'',
         SubmenuItem ''scorecards.html'', SubmenuItem ''user-management.html'']) \<and>
   SubmenuItem ''profile.html'' \<notin> set (hidden_links (applyRoleGating userInfo embeddedSidebar)) \<and>
   (SubmenuItem ''access-control.html'' \<notin>
      set (hidden_links (applyRoleGating userInfo embeddedSidebar))) = isSuperAdmin userInfo"
proof (cases "isEmployee userInfo")
  case True
  then show ?thesis
    by (simp add: employee_styled employee_hidden employee_gated employee_not_super_admin)
next
  case False
  then show ?thesis
    by (simp add: other_gated)
qed

theorem role_gating_of_embedded_sidebar_witness:
  "isEmployee (Some [''role'' \<mapsto> JStr (lit ''Employee'')]) \<and>
   length (added (styled_none embeddedSidebar)
             (styled_none (hideEmployeeMenuItems (Some [''role'' \<mapsto> JStr (lit ''Employee'')])
                embeddedSidebar))) = 7 \<and>
   length (added (hidden_links embeddedSidebar)
             (hidden_links (hideEmployeeMenuItems (Some [''role'' \<mapsto> JStr (lit ''Employee'')])
                embeddedSidebar))) = 10 \<and>
   SubmenuItem ''profile.html'' \<notin>
     set (hidden_links (applyRoleGating (Some [''role'' \<mapsto> JStr (lit ''Employee'')])
            embeddedSidebar)) \<and>
   SubmenuItem ''access-control.html'' \<in>
     set (hidden_links (applyRoleGating (Some [''role'' \<mapsto> JStr (lit ''Employee'')])
            embeddedSidebar))"
proof -
  let ?u = "Some [''role'' \<mapsto> JStr (lit ''Employee'')]"
  have h: "isEmployee ?u"
    by (simp add: isEmployee_def get_def)
  have n: "\<not> isSuperAdmin ?u"
    by (simp add: isSuperAdmin_def get_def)
  from role_gating_of_embedded_sidebar [of ?u] h n show ?thesis
    by simp
qed

text \<open>
  Claim C2 as stated fails on the number of entries: for an employee the function
  hides seven \<^verbatim>\<open>li\<close> elements of the embedded sidebar and takes ten entries off the
  page; neither number is five.
\<close>

theorem employee_hides_more_than_five_entries:
  "length (added (styled_none embeddedSidebar)
             (styled_none (hideEmployeeMenuItems (Some [''role'' \<mapsto> JStr (lit ''Employee'')])
                embeddedSidebar))) \<noteq> 5 \<and>
   length (added (hidden_links embeddedSidebar)
             (hidden_links (hideEmployeeMenuItems (Some [''role'' \<mapsto> JStr (lit ''Employee'')])
                embeddedSidebar))) \<noteq> 5"
  by (simp add: gating_defs get_def Let_def)

section \<open>Properties of a failed recomputation\<close>


















end
